theory Spec2Isabelle
  imports Complex_Main "HOL-Library.Word"
begin

section \<open>Python values and exceptions\<close>

text \<open>
  The endpoint \<open>age_check\<close> of \<open>backend/app.py\<close> handles byte strings, exceptions
  and the dynamically typed result of the age service. \<open>binascii.Error\<close> is a
  subclass of \<open>ValueError\<close>; \<open>OtherException cls msg\<close> stands for an instance of any
  subclass \<open>cls\<close> of \<open>Exception\<close> that is neither an \<open>HTTPException\<close>, a \<open>ValueError\<close>
  nor an \<open>UnidentifiedImageError\<close> (\<open>OSError\<close>, \<open>RuntimeError\<close>, \<open>AttributeError\<close>,
  ...); \<open>BaseExceptionOnly cls\<close> stands for an instance of a class that derives from
  \<open>BaseException\<close> and not from \<open>Exception\<close> (\<open>SystemExit\<close>, \<open>KeyboardInterrupt\<close>,
  \<open>GeneratorExit\<close>), which a clause \<open>except Exception\<close> does not catch.
\<close>

type_synonym bytes = "8 word list"

datatype pyexn =
    HTTPException nat string
  | ValueError string
  | BinasciiError string
  | UnidentifiedImageError string
  | OtherException string string
  | BaseExceptionOnly string

fun is_Exception :: "pyexn \<Rightarrow> bool" where
  "is_Exception (BaseExceptionOnly c) = False"
| "is_Exception e = True"

fun is_HTTPException :: "pyexn \<Rightarrow> bool" where
  "is_HTTPException (HTTPException c d) = True"
| "is_HTTPException e = False"

fun is_ValueError :: "pyexn \<Rightarrow> bool" where
  "is_ValueError (ValueError m) = True"
| "is_ValueError (BinasciiError m) = True"
| "is_ValueError e = False"

fun is_UnidentifiedImageError :: "pyexn \<Rightarrow> bool" where
  "is_UnidentifiedImageError (UnidentifiedImageError m) = True"
| "is_UnidentifiedImageError e = False"

text \<open>
  Values: \<open>None\<close>, booleans, integers, finite floats, strings, lists, dicts (as
  association lists, looked up with \<open>map_of\<close>) and \<open>PyObject\<close>, an opaque object of
  the named class that has no attribute \<open>get\<close> and the default truth value.
\<close>

datatype pyval =
    PyNone
  | PyBool bool
  | PyInt int
  | PyFloat real
  | PyStr string
  | PyList "pyval list"
  | PyDict "(pyval \<times> pyval) list"
  | PyObject string

fun truthy :: "pyval \<Rightarrow> bool" where
  "truthy PyNone = False"
| "truthy (PyBool b) = b"
| "truthy (PyInt i) = (i \<noteq> 0)"
| "truthy (PyFloat r) = (r \<noteq> 0)"
| "truthy (PyStr s) = (s \<noteq> [])"
| "truthy (PyList xs) = (xs \<noteq> [])"
| "truthy (PyDict d) = (d \<noteq> [])"
| "truthy (PyObject c) = True"

fun hasattr_get :: "pyval \<Rightarrow> bool" where
  "hasattr_get (PyDict d) = True"
| "hasattr_get v = False"

text \<open>\<open>result.get(key)\<close>: the entry of a dict, \<open>None\<close> when the key is absent.\<close>

fun py_get :: "pyval \<Rightarrow> pyval \<Rightarrow> pyexn + pyval" where
  "py_get (PyDict d) k = Inr (case map_of d k of None \<Rightarrow> PyNone | Some v \<Rightarrow> v)"
| "py_get v k = Inl (OtherException ''AttributeError'' ''get'')"

section \<open>The endpoint\<close>

record ImagePayload =
  image :: string

text \<open>
  The calls that leave \<open>app.py\<close>: \<open>base64.b64decode\<close>, \<open>Image.open\<close>,
  \<open>.convert("RGB")\<close>, \<open>np.array\<close> and \<open>age_service.detect_and_predict\<close>. Each either
  returns or raises.
\<close>

record ('img, 'arr) env =
  b64decode :: "string \<Rightarrow> pyexn + bytes"
  Image_open :: "bytes \<Rightarrow> pyexn + 'img"
  convert_RGB :: "'img \<Rightarrow> pyexn + 'img"
  np_array :: "'img \<Rightarrow> pyexn + 'arr"
  detect_and_predict :: "'arr \<Rightarrow> pyexn + pyval"

text \<open>Lines 65 to 67: the body of the inner \<open>try\<close>.\<close>

definition decode_image :: "('img, 'arr) env \<Rightarrow> string \<Rightarrow> pyexn + 'arr" where
  "decode_image E s =
     (case b64decode E s of
        Inl e \<Rightarrow> Inl e
      | Inr image_bytes \<Rightarrow>
          (case Image_open E image_bytes of
             Inl e \<Rightarrow> Inl e
           | Inr opened \<Rightarrow>
               (case convert_RGB E opened of
                  Inl e \<Rightarrow> Inl e
                | Inr pil_image \<Rightarrow> np_array E pil_image)))"

text \<open>Lines 64 to 69: the inner \<open>try\<close> with its \<open>except (ValueError, UnidentifiedImageError)\<close>.\<close>

definition decode_or_400 :: "('img, 'arr) env \<Rightarrow> string \<Rightarrow> pyexn + 'arr" where
  "decode_or_400 E s =
     (case decode_image E s of
        Inl e \<Rightarrow>
          (if is_ValueError e \<or> is_UnidentifiedImageError e
           then Inl (HTTPException 400 ''Invalid image format'')
           else Inl e)
      | Inr image_np \<Rightarrow> Inr image_np)"

definition no_face_decision :: "pyval \<Rightarrow> pyval" where
  "no_face_decision m =
     PyDict [(PyStr ''age_group'', PyStr ''Kid''),
             (PyStr ''confidence'', PyFloat 0),
             (PyStr ''forced_safety'', PyBool True),
             (PyStr ''msg'', m)]"

definition critical_error_decision :: pyval where
  "critical_error_decision =
     PyDict [(PyStr ''age_group'', PyStr ''Kid''),
             (PyStr ''confidence'', PyFloat 0),
             (PyStr ''forced_safety'', PyBool True),
             (PyStr ''error'', PyStr ''Internal Processing Error'')]"

text \<open>
  Lines 74 to 84: \<open>hasattr(result, "get") and result.get("error")\<close> guards the fail-safe
  record, whose \<open>msg\<close> is a second \<open>result.get("error")\<close>; otherwise the result is
  returned as it is.
\<close>

definition handle_result :: "pyval \<Rightarrow> pyexn + pyval" where
  "handle_result result =
     (if hasattr_get result then
        (case py_get result (PyStr ''error'') of
           Inl e \<Rightarrow> Inl e
         | Inr v \<Rightarrow>
             (if truthy v then
                (case py_get result (PyStr ''error'') of
                   Inl e \<Rightarrow> Inl e
                 | Inr m \<Rightarrow> Inr (no_face_decision m))
              else Inr result))
      else Inr result)"

text \<open>Lines 60 to 84: the body of the outer \<open>try\<close>.\<close>

definition age_check_body :: "('img, 'arr) env \<Rightarrow> ImagePayload \<Rightarrow> pyexn + pyval" where
  "age_check_body E payload =
     (if image payload = [] then Inl (HTTPException 400 ''Empty image payload'')
      else
        (case decode_or_400 E (image payload) of
           Inl e \<Rightarrow> Inl e
         | Inr image_np \<Rightarrow>
             (case detect_and_predict E image_np of
                Inl e \<Rightarrow> Inl e
              | Inr result \<Rightarrow> handle_result result)))"

text \<open>
  Lines 57 to 96. The first component is what the caller gets (\<open>Inl\<close>: the exception
  raised, \<open>Inr\<close>: the value returned), the second the exceptions passed to
  \<open>logger.error\<close>. Line 86 re-raises every \<open>HTTPException\<close>, line 88 catches every
  other instance of \<open>Exception\<close>, and what neither clause matches leaves the function.
\<close>

definition age_check :: "('img, 'arr) env \<Rightarrow> ImagePayload \<Rightarrow> (pyexn + pyval) \<times> pyexn list" where
  "age_check E payload =
     (case age_check_body E payload of
        Inl e \<Rightarrow>
          (if is_HTTPException e then (Inl e, [])
           else if is_Exception e then (Inr critical_error_decision, [e])
           else (Inl e, []))
      | Inr v \<Rightarrow> (Inr v, []))"

section \<open>Decision records\<close>

text \<open>
  The externally visible record: \<open>age_group\<close> (the name of an age band),
  \<open>confidence\<close> (a float), \<open>forced_safety\<close> (a bool) and at most one further entry,
  a message string.
\<close>

datatype AgeBand = Kid | Teen | Adult

fun band_name :: "AgeBand \<Rightarrow> string" where
  "band_name Kid = ''Kid''"
| "band_name Teen = ''Teen''"
| "band_name Adult = ''Adult''"

definition entry :: "pyval \<Rightarrow> string \<Rightarrow> pyval option" where
  "entry v k = (case v of PyDict d \<Rightarrow> map_of d (PyStr k) | _ \<Rightarrow> None)"

definition keys :: "pyval \<Rightarrow> pyval list" where
  "keys v = (case v of PyDict d \<Rightarrow> map fst d | _ \<Rightarrow> [])"

definition decision_keys :: "pyval list" where
  "decision_keys = [PyStr ''age_group'', PyStr ''confidence'', PyStr ''forced_safety'']"

fun is_str :: "pyval \<Rightarrow> bool" where
  "is_str (PyStr s) = True"
| "is_str v = False"

fun is_float :: "pyval \<Rightarrow> bool" where
  "is_float (PyFloat r) = True"
| "is_float v = False"

fun is_bool :: "pyval \<Rightarrow> bool" where
  "is_bool (PyBool b) = True"
| "is_bool v = False"

definition is_band_name :: "pyval \<Rightarrow> bool" where
  "is_band_name v = (v \<in> set (map (\<lambda>b. PyStr (band_name b)) [Kid, Teen, Adult]))"

definition extras :: "pyval \<Rightarrow> (pyval \<times> pyval) list" where
  "extras v =
     (case v of PyDict d \<Rightarrow> filter (\<lambda>kv. fst kv \<notin> set decision_keys) d | _ \<Rightarrow> [])"

definition is_Decision :: "pyval \<Rightarrow> bool" where
  "is_Decision v =
     ((case entry v ''age_group'' of Some b \<Rightarrow> is_band_name b | None \<Rightarrow> False) \<and>
      (case entry v ''confidence'' of Some c \<Rightarrow> is_float c | None \<Rightarrow> False) \<and>
      (case entry v ''forced_safety'' of Some f \<Rightarrow> is_bool f | None \<Rightarrow> False) \<and>
      distinct (keys v) \<and>
      length (extras v) \<le> 1 \<and>
      list_all (\<lambda>kv. is_str (fst kv) \<and> is_str (snd kv)) (extras v))"

section \<open>The age service\<close>

text \<open>
  \<open>age_service.py\<close> is imported by \<open>app.py\<close> and is not part of the sources at hand.
  Its parts are parameters: the face locator, the age estimator (which may fail with an
  inference error, given by its message), the band mapper and the minimum confidence.
\<close>

record ('arr, 'face) pipeline =
  locate :: "'arr \<Rightarrow> 'face list"
  estimate :: "'face \<Rightarrow> string + (real \<times> real)"
  band_mapper :: "real \<Rightarrow> AgeBand"
  min_confidence :: real

definition decision_record :: "AgeBand \<Rightarrow> real \<Rightarrow> bool \<Rightarrow> string option \<Rightarrow> pyval" where
  "decision_record b c f r =
     PyDict ([(PyStr ''age_group'', PyStr (band_name b)),
              (PyStr ''confidence'', PyFloat c),
              (PyStr ''forced_safety'', PyBool f)] @
             (case r of None \<Rightarrow> [] | Some m \<Rightarrow> [(PyStr ''msg'', PyStr m)]))"

text \<open>
  Modelled from the spec: \<open>AgeService.detect_and_predict\<close> of \<open>age_service.py\<close>, which
  is missing from the sources. Sections 4.2 to 4.5: the locator returns the face
  regions by descending confidence and the first is evaluated; no region is reported
  through an \<open>error\<close> entry reading "no face detected"; an estimator fault is raised as
  an inference error; an estimate below the minimum confidence is the most restrictive
  band with confidence 0.0, forced safety and the reason "low confidence"; any other
  estimate is the mapped band with the estimator's confidence and no forced safety.
\<close>

definition detect_and_predict_spec :: "('arr, 'face) pipeline \<Rightarrow> 'arr \<Rightarrow> pyexn + pyval" where
  "detect_and_predict_spec P image_np =
     (case locate P image_np of
        [] \<Rightarrow> Inr (PyDict [(PyStr ''error'', PyStr ''no face detected'')])
      | face # others \<Rightarrow>
          (case estimate P face of
             Inl m \<Rightarrow> Inl (OtherException ''InferenceError'' m)
           | Inr (age, conf) \<Rightarrow>
               (if conf < min_confidence P
                then Inr (decision_record Kid 0 True (Some ''low confidence''))
                else Inr (decision_record (band_mapper P age) conf False None))))"

definition with_service :: "('img, 'arr) env \<Rightarrow> ('arr, 'face) pipeline \<Rightarrow> ('img, 'arr) env" where
  "with_service E P = E\<lparr>detect_and_predict := detect_and_predict_spec P\<rparr>"



text \<open>The guard of line 75 as a predicate on the service's result.\<close>

definition reports_error :: "pyval \<Rightarrow> bool" where
  "reports_error r =
     (hasattr_get r \<and> (case py_get r (PyStr ''error'') of Inr v \<Rightarrow> truthy v | Inl e \<Rightarrow> False))"

text \<open>Decoding raised an exception that the inner \<open>except\<close> clause names.\<close>

definition decode_rejected :: "('img, 'arr) env \<Rightarrow> string \<Rightarrow> bool" where
  "decode_rejected E s =
     (case decode_image E s of
        Inl e \<Rightarrow> is_ValueError e \<or> is_UnidentifiedImageError e
      | Inr a \<Rightarrow> False)"

text \<open>A concrete environment and pipeline, for evaluating the endpoint.\<close>

definition env0 :: "(string \<Rightarrow> pyexn + bytes) \<Rightarrow> (bytes \<Rightarrow> pyexn + nat) \<Rightarrow> (nat \<Rightarrow> pyexn + nat) \<Rightarrow>
    (nat \<Rightarrow> pyexn + pyval) \<Rightarrow> (nat, nat) env" where
  "env0 dec opn cnv svc =
     \<lparr>b64decode = dec, Image_open = opn, convert_RGB = cnv, np_array = Inr,
      detect_and_predict = svc\<rparr>"

definition sample_payload :: ImagePayload where
  "sample_payload = \<lparr>image = ''QQ==''\<rparr>"

definition truncated_env :: "(nat, nat) env" where
  "truncated_env =
     env0 (\<lambda>s. Inr [65]) (\<lambda>b. Inr 0)
       (\<lambda>i. Inl (OtherException ''OSError'' ''image file is truncated''))
       (\<lambda>a. Inr PyNone)"

definition fault_env :: "(nat, nat) env" where
  "fault_env =
     env0 (\<lambda>s. Inr [65]) (\<lambda>b. Inr 0) Inr
       (\<lambda>a. Inl (OtherException ''RuntimeError'' ''model''))"

definition no_face_env :: "(nat, nat) env" where
  "no_face_env =
     env0 (\<lambda>s. Inr [65]) (\<lambda>b. Inr 0) Inr
       (\<lambda>a. Inr (PyDict [(PyStr ''error'', PyStr ''no face detected'')]))"




definition exit_env :: "(nat, nat) env" where
  "exit_env =
     env0 (\<lambda>s. Inr [65]) (\<lambda>b. Inr 0) Inr (\<lambda>a. Inl (BaseExceptionOnly ''SystemExit''))"

definition pipeline0 :: "(nat \<Rightarrow> nat list) \<Rightarrow> (nat \<Rightarrow> string + (real \<times> real)) \<Rightarrow> (nat, nat) pipeline" where
  "pipeline0 loc est =
     \<lparr>locate = loc, estimate = est,
      band_mapper = (\<lambda>age. if age < 13 then Kid else if age < 18 then Teen else Adult),
      min_confidence = 1 / 2\<rparr>"

definition decoding_env :: "(nat, nat) env" where
  "decoding_env = env0 (\<lambda>s. Inr [65]) (\<lambda>b. Inr 0) Inr (\<lambda>a. Inr PyNone)"

definition adult_pipeline :: "(nat, nat) pipeline" where
  "adult_pipeline = pipeline0 (\<lambda>a. [7]) (\<lambda>f. Inr (30, 9 / 10))"

definition unsure_pipeline :: "(nat, nat) pipeline" where
  "unsure_pipeline = pipeline0 (\<lambda>a. [7]) (\<lambda>f. Inr (30, 1 / 10))"

section \<open>Paths through the endpoint\<close>

lemma body_after_decode:
  "image p \<noteq> [] \<Longrightarrow> decode_image E (image p) = Inr a \<Longrightarrow>
   age_check_body E p =
     (case detect_and_predict E a of Inl e \<Rightarrow> Inl e | Inr r \<Rightarrow> handle_result r)"
  by (simp add: age_check_body_def decode_or_400_def)

lemma handle_result_verbatim: "\<not> reports_error r \<Longrightarrow> handle_result r = Inr r"
  by (cases r) (simp_all add: handle_result_def reports_error_def)

lemma handle_result_error:
  "reports_error r \<Longrightarrow>
   \<exists>m. py_get r (PyStr ''error'') = Inr m \<and> handle_result r = Inr (no_face_decision m)"
  by (cases r) (simp_all add: handle_result_def reports_error_def)

lemma body_empty: "image p = [] \<Longrightarrow> age_check_body E p = Inl (HTTPException 400 ''Empty image payload'')"
  by (simp add: age_check_body_def)

lemma body_rejected:
  "image p \<noteq> [] \<Longrightarrow> decode_rejected E (image p) \<Longrightarrow>
   age_check_body E p = Inl (HTTPException 400 ''Invalid image format'')"
  by (auto simp: age_check_body_def decode_or_400_def decode_rejected_def split: sum.splits)

lemma age_check_http: "age_check_body E p = Inl (HTTPException c d) \<Longrightarrow> age_check E p = (Inl (HTTPException c d), [])"
  by (simp add: age_check_def)

section \<open>Results returned as they are\<close>

text \<open>
  C9. Once the image is decoded, every result of the age service that is not an object
  with a \<open>get\<close> attribute and a truthy \<open>error\<close> entry (a dict whose \<open>error\<close> entry is
  absent, \<open>None\<close> or empty, or any value without \<open>get\<close>) is returned to the caller
  unchanged, and nothing is logged.
\<close>

theorem age_check_verbatim:
  assumes "image p \<noteq> []" and "decode_image E (image p) = Inr a"
    and "detect_and_predict E a = Inr r" and "\<not> reports_error r"
  shows "age_check E p = (Inr r, [])"
  using assms by (simp add: age_check_def body_after_decode handle_result_verbatim)

theorem age_check_verbatim_witness:
  "\<not> reports_error (PyDict [(PyStr ''error'', PyStr [])]) \<and>
   age_check (env0 (\<lambda>s. Inr [1]) (\<lambda>b. Inr 0) Inr (\<lambda>a. Inr (PyDict [(PyStr ''error'', PyStr [])])))
     \<lparr>image = ''QQ==''\<rparr> = (Inr (PyDict [(PyStr ''error'', PyStr [])]), [])"
proof
  show "\<not> reports_error (PyDict [(PyStr ''error'', PyStr [])])"
    by (simp add: reports_error_def)
  show "age_check (env0 (\<lambda>s. Inr [1]) (\<lambda>b. Inr 0) Inr (\<lambda>a. Inr (PyDict [(PyStr ''error'', PyStr [])])))
     \<lparr>image = ''QQ==''\<rparr> = (Inr (PyDict [(PyStr ''error'', PyStr [])]), [])"
    by (rule age_check_verbatim [where a = 0])
       (simp_all add: env0_def decode_image_def reports_error_def)
qed

section \<open>The fail-safe records\<close>




text \<open>
  C7, as stated, fails: not every exception of the age service other than an
  \<open>HTTPException\<close> becomes the fail-safe record. Line 88 is \<open>except Exception\<close>, so a
  \<open>SystemExit\<close> raised during inference leaves the endpoint and no record is returned.
\<close>

theorem service_exit_counterexample:
  "\<not> is_HTTPException (BaseExceptionOnly ''SystemExit'') \<and>
   age_check exit_env sample_payload = (Inl (BaseExceptionOnly ''SystemExit''), [])"
  by (simp add: exit_env_def sample_payload_def env0_def decode_image_def age_check_def
      age_check_body_def decode_or_400_def)

text \<open>
  C7, amended. When the image is decoded and the age service raises an instance of
  \<open>Exception\<close> that is not an \<open>HTTPException\<close>, the endpoint logs it and returns the
  record with \<open>age_group\<close> "Kid", \<open>confidence\<close> 0.0, \<open>forced_safety\<close> true and the reason
  "Internal Processing Error" (the entry \<open>error\<close>).
\<close>

theorem age_check_service_fault:
  assumes "image p \<noteq> []" and "decode_image E (image p) = Inr a"
    and "detect_and_predict E a = Inl e" and "is_Exception e" and "\<not> is_HTTPException e"
  shows "age_check E p =
           (Inr (PyDict [(PyStr ''age_group'', PyStr ''Kid''),
                         (PyStr ''confidence'', PyFloat 0),
                         (PyStr ''forced_safety'', PyBool True),
                         (PyStr ''error'', PyStr ''Internal Processing Error'')]), [e])"
  using assms by (simp add: age_check_def body_after_decode critical_error_decision_def)

theorem age_check_service_fault_witness:
  "is_Exception (OtherException ''RuntimeError'' ''model'') \<and>
   \<not> is_HTTPException (OtherException ''RuntimeError'' ''model'') \<and>
   age_check (env0 (\<lambda>s. Inr [1]) (\<lambda>b. Inr 0) Inr
       (\<lambda>a. Inl (OtherException ''RuntimeError'' ''model'')))
     \<lparr>image = ''QQ==''\<rparr> =
   (Inr (PyDict [(PyStr ''age_group'', PyStr ''Kid''),
                 (PyStr ''confidence'', PyFloat 0),
                 (PyStr ''forced_safety'', PyBool True),
                 (PyStr ''error'', PyStr ''Internal Processing Error'')]),
    [OtherException ''RuntimeError'' ''model''])"
proof -
  let ?e = "OtherException ''RuntimeError'' ''model''"
  let ?E = "env0 (\<lambda>s. Inr [1]) (\<lambda>b. Inr 0) Inr (\<lambda>a. Inl ?e)"
  have "image \<lparr>image = ''QQ==''\<rparr> \<noteq> []" by simp
  moreover have "decode_image ?E (image \<lparr>image = ''QQ==''\<rparr>) = Inr 0"
    by (simp add: env0_def decode_image_def)
  moreover have "detect_and_predict ?E 0 = Inl ?e" by (simp add: env0_def)
  moreover have "is_Exception ?e" by simp
  moreover have "\<not> is_HTTPException ?e" by simp
  ultimately show ?thesis
    using age_check_service_fault [of "\<lparr>image = ''QQ==''\<rparr>" ?E 0 ?e] by simp
qed

section \<open>Client-input faults\<close>

text \<open>
  C10. A payload whose \<open>image\<close> is not valid base64, so that \<open>b64decode\<close> raises
  \<open>binascii.Error\<close>, gets the HTTP 400 fault "Invalid image format", and a payload whose
  decoded bytes \<open>Image.open\<close> cannot identify gets the very same outcome: the caller
  cannot tell the two causes apart.
\<close>

theorem bad_base64_same_fault:
  assumes "image p \<noteq> []" and "b64decode E (image p) = Inl (BinasciiError m)"
    and "image q \<noteq> []" and "b64decode E' (image q) = Inr bs"
    and "Image_open E' bs = Inl (UnidentifiedImageError m')"
  shows "age_check E p = (Inl (HTTPException 400 ''Invalid image format''), []) \<and>
         age_check E' q = age_check E p"
proof -
  have "decode_rejected E (image p)"
    using assms(2) by (simp add: decode_rejected_def decode_image_def)
  then have p: "age_check E p = (Inl (HTTPException 400 ''Invalid image format''), [])"
    using assms(1) by (simp add: body_rejected age_check_http)
  have "decode_rejected E' (image q)"
    using assms(4,5) by (simp add: decode_rejected_def decode_image_def)
  then have "age_check E' q = (Inl (HTTPException 400 ''Invalid image format''), [])"
    using assms(3) by (simp add: body_rejected age_check_http)
  with p show ?thesis by simp
qed

theorem bad_base64_same_fault_witness:
  "age_check (env0 (\<lambda>s. Inl (BinasciiError ''Incorrect padding'')) (\<lambda>b. Inr 0) Inr (\<lambda>a. Inr PyNone))
     \<lparr>image = ''Q''\<rparr> = (Inl (HTTPException 400 ''Invalid image format''), []) \<and>
   age_check (env0 (\<lambda>s. Inr [65]) (\<lambda>b. Inl (UnidentifiedImageError ''cannot identify image file'')) Inr
       (\<lambda>a. Inr PyNone)) \<lparr>image = ''QQ==''\<rparr> =
   age_check (env0 (\<lambda>s. Inl (BinasciiError ''Incorrect padding'')) (\<lambda>b. Inr 0) Inr (\<lambda>a. Inr PyNone))
     \<lparr>image = ''Q''\<rparr>"
  by (rule bad_base64_same_fault [where bs = "[65]"]) (simp_all add: env0_def)

text \<open>
  C3. A payload whose \<open>image\<close> is the empty string, or decodes to the empty byte
  sequence, gets an HTTP 400 fault and no record, \<open>Image.open\<close> raising
  \<open>UnidentifiedImageError\<close> on the empty byte sequence as Pillow does.
\<close>

theorem empty_bytes_fault:
  assumes "image p = [] \<or> b64decode E (image p) = Inr []"
    and "Image_open E [] = Inl (UnidentifiedImageError m)"
  shows "\<exists>d. age_check E p = (Inl (HTTPException 400 d), [])"
proof (cases "image p = []")
  case True
  then show ?thesis by (simp add: body_empty age_check_http)
next
  case False
  with assms have "decode_rejected E (image p)"
    by (simp add: decode_rejected_def decode_image_def)
  with False show ?thesis by (simp add: body_rejected age_check_http)
qed

theorem empty_bytes_fault_witness:
  "\<exists>d. age_check (env0 (\<lambda>s. Inr []) (\<lambda>b. Inl (UnidentifiedImageError ''cannot identify image file''))
          Inr (\<lambda>a. Inr PyNone)) \<lparr>image = '' ''\<rparr> = (Inl (HTTPException 400 d), [])"
  by (rule empty_bytes_fault) (simp_all add: env0_def)

text \<open>
  C4. Lines 64 to 69 answer an image that cannot be decoded with the HTTP 400 fault
  "Invalid image format", and \<open>convert\<close> and \<open>np.array\<close> stand in the same \<open>try\<close> as
  \<open>Image.open\<close>. The clause names \<open>ValueError\<close> and \<open>UnidentifiedImageError\<close> only:
  the \<open>OSError\<close> that \<open>convert\<close> raises on a truncated image file is not matched,
  reaches the handler of line 88 and comes back as the fail-safe record of an inference
  failure. The endpoint evaluated at such a payload:
\<close>

theorem truncated_image_gets_fail_safe:
  "decode_image truncated_env (image sample_payload) =
     Inl (OtherException ''OSError'' ''image file is truncated'') \<and>
   age_check truncated_env sample_payload =
     (Inr critical_error_decision, [OtherException ''OSError'' ''image file is truncated''])"
  by (simp add: truncated_env_def sample_payload_def env0_def decode_image_def age_check_def
      age_check_body_def decode_or_400_def)

section \<open>The two fail-safe records compared\<close>

text \<open>
  C6, as stated, fails: the record returned after a fault of the age service and the
  record returned when no face is found do not have the same field names. The first
  carries its reason under \<open>error\<close>, the second under \<open>msg\<close>.
\<close>

theorem fault_record_field_names_counterexample:
  "fst (age_check fault_env sample_payload) = Inr critical_error_decision \<and>
   fst (age_check no_face_env sample_payload) = Inr (no_face_decision (PyStr ''no face detected'')) \<and>
   keys critical_error_decision \<noteq> keys (no_face_decision (PyStr ''no face detected''))"
  by (simp add: fault_env_def no_face_env_def sample_payload_def env0_def decode_image_def
      age_check_def age_check_body_def decode_or_400_def handle_result_def keys_def
      critical_error_decision_def no_face_decision_def)

text \<open>
  C6, amended. The record returned after a fault of the age service has the same
  \<open>age_group\<close>, \<open>confidence\<close> and \<open>forced_safety\<close> entries as the record returned when
  no face is found; the two differ in their fourth entry, which is \<open>error\<close> with the
  text "Internal Processing Error" in the first and \<open>msg\<close> with the error entry of the
  service in the second.
\<close>

theorem fault_record_matches_no_face:
  assumes "image p \<noteq> []" and "decode_image E (image p) = Inr a"
    and "detect_and_predict E a = Inl e" and "is_Exception e" and "\<not> is_HTTPException e"
    and "image q \<noteq> []" and "decode_image E' (image q) = Inr a'"
    and "detect_and_predict E' a' = Inr r" and "reports_error r"
  shows "\<exists>v v' m. fst (age_check E p) = Inr v \<and> fst (age_check E' q) = Inr v' \<and>
           py_get r (PyStr ''error'') = Inr m \<and>
           entry v ''age_group'' = entry v' ''age_group'' \<and>
           entry v ''confidence'' = entry v' ''confidence'' \<and>
           entry v ''forced_safety'' = entry v' ''forced_safety'' \<and>
           keys v = decision_keys @ [PyStr ''error''] \<and>
           keys v' = decision_keys @ [PyStr ''msg''] \<and>
           entry v ''error'' = Some (PyStr ''Internal Processing Error'') \<and>
           entry v' ''msg'' = Some m"
proof -
  have v: "fst (age_check E p) = Inr critical_error_decision"
    using assms(1-5) by (simp add: age_check_def body_after_decode)
  from handle_result_error [OF assms(9)] obtain m where
    m: "py_get r (PyStr ''error'') = Inr m" and "handle_result r = Inr (no_face_decision m)"
    by blast
  then have v': "fst (age_check E' q) = Inr (no_face_decision m)"
    using assms(6-8) by (simp add: age_check_def body_after_decode)
  have "entry critical_error_decision ''age_group'' = entry (no_face_decision m) ''age_group''"
    and "entry critical_error_decision ''confidence'' = entry (no_face_decision m) ''confidence''"
    and "entry critical_error_decision ''forced_safety'' = entry (no_face_decision m) ''forced_safety''"
    and "keys critical_error_decision = decision_keys @ [PyStr ''error'']"
    and "keys (no_face_decision m) = decision_keys @ [PyStr ''msg'']"
    and "entry critical_error_decision ''error'' = Some (PyStr ''Internal Processing Error'')"
    and "entry (no_face_decision m) ''msg'' = Some m"
    by (simp_all add: entry_def keys_def decision_keys_def critical_error_decision_def
        no_face_decision_def)
  with v v' m show ?thesis by blast
qed

theorem fault_record_matches_no_face_witness:
  "\<exists>v v' m. fst (age_check fault_env sample_payload) = Inr v \<and>
           fst (age_check no_face_env sample_payload) = Inr v' \<and>
           py_get (PyDict [(PyStr ''error'', PyStr ''no face detected'')]) (PyStr ''error'') = Inr m \<and>
           entry v ''age_group'' = entry v' ''age_group'' \<and>
           entry v ''confidence'' = entry v' ''confidence'' \<and>
           entry v ''forced_safety'' = entry v' ''forced_safety'' \<and>
           keys v = decision_keys @ [PyStr ''error''] \<and>
           keys v' = decision_keys @ [PyStr ''msg''] \<and>
           entry v ''error'' = Some (PyStr ''Internal Processing Error'') \<and>
           entry v' ''msg'' = Some m"
  by (rule fault_record_matches_no_face [where a = 0 and a' = 0
        and e = "OtherException ''RuntimeError'' ''model''"
        and r = "PyDict [(PyStr ''error'', PyStr ''no face detected'')]"])
     (simp_all add: fault_env_def no_face_env_def sample_payload_def env0_def decode_image_def
        reports_error_def)

section \<open>The endpoint over the age service of the specification\<close>

lemma handle_result_cases:
  "handle_result r = Inr (if reports_error r
      then no_face_decision (case entry r ''error'' of Some m \<Rightarrow> m | None \<Rightarrow> PyNone) else r)"
  by (cases r) (simp_all add: handle_result_def reports_error_def entry_def)

lemma spec_service_cases:
  "detect_and_predict_spec P a = Inr (PyDict [(PyStr ''error'', PyStr ''no face detected'')]) \<or>
   detect_and_predict_spec P a = Inr (decision_record Kid 0 True (Some ''low confidence'')) \<or>
   (\<exists>b c. detect_and_predict_spec P a = Inr (decision_record b c False None)) \<or>
   (\<exists>m. detect_and_predict_spec P a = Inl (OtherException ''InferenceError'' m))"
  by (auto simp: detect_and_predict_spec_def split: list.splits sum.splits prod.splits)

lemma is_Decision_record: "is_Decision (decision_record b c f r)"
  by (cases b; cases r)
     (simp_all add: is_Decision_def decision_record_def entry_def keys_def extras_def
        decision_keys_def is_band_name_def)

lemma is_Decision_no_face: "is_Decision (no_face_decision (PyStr m))"
  by (simp add: is_Decision_def no_face_decision_def entry_def keys_def extras_def
        decision_keys_def is_band_name_def)

lemma is_Decision_critical: "is_Decision critical_error_decision"
  by (simp add: is_Decision_def critical_error_decision_def entry_def keys_def extras_def
        decision_keys_def is_band_name_def)

lemma reports_error_record: "\<not> reports_error (decision_record b c f r)"
  by (cases r) (simp_all add: reports_error_def decision_record_def)

lemma spec_service_handled:
  "(case detect_and_predict_spec P a of Inl e \<Rightarrow> Inl e | Inr r \<Rightarrow> handle_result r) =
     Inr (no_face_decision (PyStr ''no face detected'')) \<or>
   (case detect_and_predict_spec P a of Inl e \<Rightarrow> Inl e | Inr r \<Rightarrow> handle_result r) =
     Inr (decision_record Kid 0 True (Some ''low confidence'')) \<or>
   (\<exists>b c. (case detect_and_predict_spec P a of Inl e \<Rightarrow> Inl e | Inr r \<Rightarrow> handle_result r) =
     Inr (decision_record b c False None)) \<or>
   (\<exists>m. (case detect_and_predict_spec P a of Inl e \<Rightarrow> Inl e | Inr r \<Rightarrow> handle_result r) =
     Inl (OtherException ''InferenceError'' m))"
proof -
  let ?h = "case detect_and_predict_spec P a of Inl e \<Rightarrow> Inl e | Inr r \<Rightarrow> handle_result r"
  have nf: "handle_result (PyDict [(PyStr ''error'', PyStr ''no face detected'')]) =
      Inr (no_face_decision (PyStr ''no face detected''))"
    by (simp add: handle_result_def)
  have rec: "handle_result (decision_record b c f r) = Inr (decision_record b c f r)" for b c f r
    by (simp add: handle_result_cases reports_error_record)
  from spec_service_cases [of P a] show ?thesis
  proof (elim disjE exE)
    assume "detect_and_predict_spec P a = Inr (PyDict [(PyStr ''error'', PyStr ''no face detected'')])"
    then have "?h = Inr (no_face_decision (PyStr ''no face detected''))" by (simp add: nf)
    then show ?thesis by blast
  next
    assume "detect_and_predict_spec P a = Inr (decision_record Kid 0 True (Some ''low confidence''))"
    then have "?h = Inr (decision_record Kid 0 True (Some ''low confidence''))" by (simp add: rec)
    then show ?thesis by blast
  next
    fix b c assume "detect_and_predict_spec P a = Inr (decision_record b c False None)"
    then have "?h = Inr (decision_record b c False None)" by (simp add: rec)
    then show ?thesis by blast
  next
    fix m assume "detect_and_predict_spec P a = Inl (OtherException ''InferenceError'' m)"
    then have "?h = Inl (OtherException ''InferenceError'' m)" by simp
    then show ?thesis by blast
  qed
qed

lemma decode_with_service: "decode_image (with_service E P) s = decode_image E s"
  by (simp add: with_service_def decode_image_def split: sum.splits)

lemma body_with_service:
  "age_check_body (with_service E P) p =
     (if image p = [] then Inl (HTTPException 400 ''Empty image payload'')
      else case decode_image E (image p) of
        Inl e \<Rightarrow> (if is_ValueError e \<or> is_UnidentifiedImageError e
                   then Inl (HTTPException 400 ''Invalid image format'') else Inl e)
      | Inr a \<Rightarrow> (case detect_and_predict_spec P a of Inl e \<Rightarrow> Inl e | Inr r \<Rightarrow> handle_result r))"
  by (simp add: age_check_body_def decode_or_400_def decode_with_service split: sum.splits)
     (simp add: with_service_def)

lemma returned_with_service:
  assumes "fst (age_check (with_service E P) p) = Inr v"
  shows "v = critical_error_decision \<or> v = no_face_decision (PyStr ''no face detected'') \<or>
         v = decision_record Kid 0 True (Some ''low confidence'') \<or>
         (\<exists>b c. v = decision_record b c False None)"
proof (cases "age_check_body (with_service E P) p")
  case (Inl e)
  with assms show ?thesis by (simp add: age_check_def split: if_splits)
next
  case (Inr w)
  with assms have w: "w = v" by (simp add: age_check_def)
  from Inr obtain a where "(case detect_and_predict_spec P a of Inl e \<Rightarrow> Inl e | Inr r \<Rightarrow> handle_result r) = Inr w"
    by (auto simp: body_with_service split: if_splits sum.splits)
  with spec_service_handled [of P a] w show ?thesis by auto
qed

lemma adult_run:
  "fst (age_check (with_service decoding_env adult_pipeline) sample_payload) =
     Inr (decision_record Adult (9 / 10) False None)"
  by (simp add: age_check_def body_with_service sample_payload_def decoding_env_def env0_def
      decode_image_def detect_and_predict_spec_def adult_pipeline_def pipeline0_def
      handle_result_cases reports_error_record)

lemma unsure_run:
  "fst (age_check (with_service decoding_env unsure_pipeline) sample_payload) =
     Inr (decision_record Kid 0 True (Some ''low confidence''))"
  by (simp add: age_check_def body_with_service sample_payload_def decoding_env_def env0_def
      decode_image_def detect_and_predict_spec_def unsure_pipeline_def pipeline0_def
      handle_result_cases reports_error_record)

text \<open>
  C8. With the age service of the specification, every value the endpoint returns is a
  Decision record: it has the entries \<open>age_group\<close> (the name of an age band),
  \<open>confidence\<close> (a float) and \<open>forced_safety\<close> (a bool) and at most one further entry,
  a message string. This holds on the two fail-safe paths and on the path that returns
  the result of the service as it is.
\<close>

theorem returned_is_decision:
  "fst (age_check (with_service E P) p) = Inr v \<Longrightarrow> is_Decision v"
  by (auto dest!: returned_with_service
       simp: is_Decision_record is_Decision_no_face is_Decision_critical)

theorem returned_is_decision_witness:
  "fst (age_check (with_service decoding_env adult_pipeline) sample_payload) =
     Inr (decision_record Adult (9 / 10) False None) \<and>
   is_Decision (decision_record Adult (9 / 10) False None)"
  using returned_is_decision [OF adult_run] adult_run by simp

text \<open>
  C2. With the age service of the specification, every record the endpoint returns
  whose \<open>forced_safety\<close> is true has the \<open>age_group\<close> "Kid" and the \<open>confidence\<close> 0.0.
\<close>

theorem forced_safety_is_kid:
  assumes "fst (age_check (with_service E P) p) = Inr v"
    and "entry v ''forced_safety'' = Some (PyBool True)"
  shows "entry v ''age_group'' = Some (PyStr ''Kid'') \<and> entry v ''confidence'' = Some (PyFloat 0)"
  using returned_with_service [OF assms(1)] assms(2)
  by (auto simp: entry_def critical_error_decision_def no_face_decision_def decision_record_def)

theorem forced_safety_is_kid_witness:
  "fst (age_check (with_service decoding_env unsure_pipeline) sample_payload) =
     Inr (decision_record Kid 0 True (Some ''low confidence'')) \<and>
   entry (decision_record Kid 0 True (Some ''low confidence'')) ''forced_safety'' = Some (PyBool True) \<and>
   entry (decision_record Kid 0 True (Some ''low confidence'')) ''age_group'' = Some (PyStr ''Kid'') \<and>
   entry (decision_record Kid 0 True (Some ''low confidence'')) ''confidence'' = Some (PyFloat 0)"
proof -
  have f: "entry (decision_record Kid 0 True (Some ''low confidence'')) ''forced_safety'' = Some (PyBool True)"
    by (simp add: entry_def decision_record_def)
  from forced_safety_is_kid [OF unsure_run f] unsure_run f show ?thesis by simp
qed

section \<open>Every way out of the endpoint\<close>




end
